theory Spec2Isabelle
  imports Main "HOL-Library.Word" "HOL-Library.AList" "HOL-Library.Sublist"
begin

unbundle bit_operations_syntax

text \<open>
  A model of the session store (\<open>UnifiedSessionManager\<close>, core/session_manager.py) and
  of the resolver of capability modules (\<open>UnifiedUtilitiesManager._resolve_target\<close>,
  core/utilities_manager.py) of chuk-mcp-ios. State is passed explicitly: a function takes
  the manager object and the file system and returns them updated. Exceptions are values
  of type \<open>error\<close>, on the left of a sum. What a call reads from the clock, the random
  source and the disk is a parameter. Printing is not modelled.
\<close>

section \<open>Data model (core/base.py)\<close>

datatype device_type = SIMULATOR | REAL_DEVICE

datatype device_state = CONNECTED | DISCONNECTED | BOOTED | SHUTDOWN | UNKNOWN

text \<open>The exception classes of core/base.py, and the built-in exceptions the modelled
  code raises. Messages are not modelled.\<close>

datatype error =
    SessionError | DeviceNotFoundError | DeviceNotAvailableError
  | ValueError | AttributeError | OtherError

text \<open>\<open>DeviceType.value\<close> and the enum constructor \<open>DeviceType(s)\<close>, which raises
  ValueError (here \<open>None\<close>) on any other string.\<close>

fun device_type_value :: "device_type \<Rightarrow> string" where
  "device_type_value SIMULATOR = ''simulator''"
| "device_type_value REAL_DEVICE = ''real_device''"

definition DeviceType :: "string \<Rightarrow> device_type option" where
  "DeviceType s =
     (if s = ''simulator'' then Some SIMULATOR
      else if s = ''real_device'' then Some REAL_DEVICE
      else None)"

record device_info =
  udid :: string
  name :: string
  state :: device_state
  dev_type :: device_type
  os_version :: string
  model :: string
  connection_type :: string

text \<open>The \<open>device_type\<close> attribute of a SessionInfo is a \<open>DeviceType\<close> member when the
  session comes from \<open>create_session\<close>; \<open>_load_sessions\<close> stores a non-string JSON
  value as it is (\<open>RawValue\<close>).\<close>

datatype type_attr = Member device_type | RawValue

text \<open>Instants are microseconds on the naive local clock of \<open>datetime.now()\<close>.
  The metadata dictionary of a session is not modelled.\<close>

record session_info =
  session_id :: string
  device_udid :: string
  device_type :: type_attr
  created_at :: int

record session_config =
  cfg_device_name :: "string option"
  cfg_device_udid :: "string option"
  cfg_platform_version :: "string option"
  cfg_device_type :: "device_type option"
  cfg_autoboot :: bool
  cfg_wait_for_connection :: bool
  cfg_prefer_available :: bool
  cfg_session_name :: "string option"

definition SessionConfig :: session_config where
  "SessionConfig =
     \<lparr>cfg_device_name = None, cfg_device_udid = None, cfg_platform_version = None,
      cfg_device_type = None, cfg_autoboot = True, cfg_wait_for_connection = True,
      cfg_prefer_available = True, cfg_session_name = None\<rparr>"

section \<open>Persisted records and the session directory\<close>

text \<open>What \<open>json.load\<close> gives for a session file. The file is not JSON
  (\<open>NotJson\<close>, JSONDecodeError) or it is a JSON object, of which the four required
  fields are read. \<open>session_id\<close> and \<open>device_udid\<close> are strings when present.
  \<open>device_type\<close> is a string or some other JSON value. \<open>created_at\<close> is a string
  that \<open>datetime.fromisoformat\<close> parses to an instant (\<open>IsoTime\<close>), a string it
  rejects with ValueError (\<open>BadTime\<close>), or a value on which the parse or the
  comparison with the cutoff raises TypeError (\<open>TypeErrTime\<close>).\<close>

datatype type_field = TypeStr string | TypeNonStr

datatype time_field = IsoTime int | BadTime | TypeErrTime

record json_record =
  f_session_id :: "string option"
  f_device_udid :: "string option"
  f_device_type :: "type_field option"
  f_created_at :: "time_field option"

datatype file_content = NotJson | Json json_record

text \<open>For each directory path: its \<open>*.json\<close> files in the order \<open>glob\<close> yields
  them, each keyed by its name without the suffix; and the files of its
  \<open>corrupted\<close> subdirectory. The order of a listing is arbitrary: the code does not
  sort it. Unlinking a file and replacing the content of a file always succeed here; a
  new file is listed last. The one failure of the disk that is modelled is that of the
  write in \<open>_save_session\<close>.\<close>

record filesystem =
  json_files :: "string \<Rightarrow> (string \<times> file_content) list"
  corrupted_files :: "string \<Rightarrow> (string \<times> file_content) list"

definition file_exists :: "filesystem \<Rightarrow> string \<Rightarrow> string \<Rightarrow> bool" where
  "file_exists fs dir stem = (stem \<in> fst ` set (json_files fs dir))"

definition unlink :: "filesystem \<Rightarrow> string \<Rightarrow> string \<Rightarrow> filesystem" where
  "unlink fs dir stem =
     fs\<lparr>json_files := (json_files fs)(dir := AList.delete stem (json_files fs dir))\<rparr>"

definition write_file :: "filesystem \<Rightarrow> string \<Rightarrow> string \<Rightarrow> file_content \<Rightarrow> filesystem" where
  "write_file fs dir stem f =
     fs\<lparr>json_files := (json_files fs)(dir := AList.update stem f (json_files fs dir))\<rparr>"

section \<open>Session ids (core/session_manager.py)\<close>

definition hex_digit :: "nat \<Rightarrow> char" where
  "hex_digit n = ''0123456789abcdef'' ! (n mod 16)"

text \<open>\<open>f"{x:032x}"\<close> for a value below \<open>2 ^ 128\<close>.\<close>

definition hex32 :: "128 word \<Rightarrow> string" where
  "hex32 w = map (\<lambda>i. hex_digit (unat (drop_bit (4 * (31 - i)) w AND 15))) [0..<32]"

definition generate_uuid4 :: "128 word \<Rightarrow> string" where
  "generate_uuid4 randbits =
     (let r1 = randbits AND NOT (push_bit 48 0xf000);
          r2 = r1 OR push_bit 48 0x4000;
          r3 = r2 AND NOT (push_bit 56 0xc0);
          r4 = r3 OR push_bit 56 0x80;
          hex_string = hex32 r4
      in take 8 hex_string @ ''-'' @ take 4 (drop 8 hex_string) @ ''-''
         @ take 4 (drop 12 hex_string) @ ''-'' @ take 4 (drop 16 hex_string) @ ''-''
         @ drop 20 hex_string)"

text \<open>The decimal form of a non-negative integer, as an f-string prints it.\<close>

definition digit_char :: "nat \<Rightarrow> char" where
  "digit_char n = ''0123456789'' ! (n mod 10)"

fun show_nat :: "nat \<Rightarrow> string" where
  "show_nat n =
     (if n < 10 then [digit_char n] else show_nat (n div 10) @ [digit_char (n mod 10)])"

declare show_nat.simps [simp del]

text \<open>\<open>timestamp\<close> is \<open>int(time.time())\<close> and \<open>randbits\<close> is
  \<open>secrets.randbits(128)\<close>. A custom name that is None or empty is falsy.\<close>

definition generate_session_id :: "string option \<Rightarrow> nat \<Rightarrow> 128 word \<Rightarrow> string" where
  "generate_session_id custom_name timestamp randbits =
     (let unique_id = take 8 (generate_uuid4 randbits) in
      case custom_name of
         None \<Rightarrow> ''session_'' @ show_nat timestamp @ ''_'' @ unique_id
       | Some n \<Rightarrow>
           if n \<noteq> [] then n @ ''_'' @ show_nat timestamp @ ''_'' @ unique_id
           else ''session_'' @ show_nat timestamp @ ''_'' @ unique_id)"

section \<open>The session manager (core/session_manager.py)\<close>

text \<open>\<open>sessions\<close> is the dictionary in insertion order.\<close>

record manager =
  sessions :: "(string \<times> session_info) list"
  session_dir :: string
  max_sessions :: int
  auto_cleanup_hours :: int

definition default_session_dir :: string where
  "default_session_dir = ''~/.ios-device-control/sessions''"

definition hours :: "int \<Rightarrow> int" where
  "hours h = h * 3600 * 1000000"

definition has_session :: "manager \<Rightarrow> string \<Rightarrow> bool" where
  "has_session m sid = (sid \<in> fst ` set (sessions m))"

definition delete_session_file :: "manager \<Rightarrow> filesystem \<Rightarrow> string \<Rightarrow> filesystem" where
  "delete_session_file m fs sid =
     (if file_exists fs (session_dir m) sid then unlink fs (session_dir m) sid else fs)"

text \<open>The shutdown of an auto-booted simulator inside \<open>terminate_session\<close> acts on the
  device only and every exception of it is caught; it is not modelled.\<close>

definition terminate_session ::
  "manager \<Rightarrow> filesystem \<Rightarrow> string \<Rightarrow> (error + unit) \<times> manager \<times> filesystem" where
  "terminate_session m fs sid =
     (if \<not> has_session m sid then
        (if file_exists fs (session_dir m) sid
         then (Inr (), m, unlink fs (session_dir m) sid)
         else (Inl SessionError, m, fs))
      else
        (let m' = m\<lparr>sessions := AList.delete sid (sessions m)\<rparr>
         in (Inr (), m', delete_session_file m' fs sid)))"

definition list_sessions :: "manager \<Rightarrow> string list" where
  "list_sessions m = map fst (sessions m)"

definition get_device_udid :: "manager \<Rightarrow> string \<Rightarrow> error + string" where
  "get_device_udid m sid =
     (case map_of (sessions m) sid of
        None \<Rightarrow> Inl SessionError
      | Some info \<Rightarrow> Inr (device_udid info))"

text \<open>\<open>cleanup_inactive_sessions\<close>: the loop runs over a snapshot of the dictionary;
  an exception of \<open>terminate_session\<close> is caught and the session is not reported.
  \<open>now\<close> is the loop's \<open>datetime.now()\<close>.\<close>

fun cleanup_loop ::
  "int \<Rightarrow> int \<Rightarrow> (string \<times> session_info) list \<Rightarrow> string list \<times> manager \<times> filesystem
   \<Rightarrow> string list \<times> manager \<times> filesystem" where
  "cleanup_loop now max_age [] acc = acc"
| "cleanup_loop now max_age ((sid, info) # rest) (cleaned, m, fs) =
     (if now - created_at info > max_age then
        (case terminate_session m fs sid of
           (Inr _, m', fs') \<Rightarrow> cleanup_loop now max_age rest (cleaned @ [sid], m', fs')
         | (Inl _, m', fs') \<Rightarrow> cleanup_loop now max_age rest (cleaned, m', fs'))
      else cleanup_loop now max_age rest (cleaned, m, fs))"

definition cleanup_inactive_sessions ::
  "manager \<Rightarrow> filesystem \<Rightarrow> int \<Rightarrow> int \<Rightarrow> string list \<times> manager \<times> filesystem" where
  "cleanup_inactive_sessions m fs now max_age_hours =
     cleanup_loop now (hours max_age_hours) (sessions m) ([], m, fs)"

subsection \<open>Device selection\<close>

text \<open>core/device_manager.py is not part of the sources: the answers of the device
  manager's methods are parameters. \<open>boot_device\<close> answers with the exception it
  raises, if any.\<close>

record device_manager =
  get_device :: "string \<Rightarrow> device_info option"
  is_device_available :: "string \<Rightarrow> bool"
  boot_device :: "string \<Rightarrow> error option"
  wait_for_device :: "string \<Rightarrow> nat \<Rightarrow> bool"
  discover_all_devices :: "device_info list"

text \<open>Python's \<open>a in b\<close> on strings.\<close>

fun str_contains :: "string \<Rightarrow> string \<Rightarrow> bool" where
  "str_contains a [] = (a = [])"
| "str_contains a (c # cs) = (prefix a (c # cs) \<or> str_contains a cs)"

definition truthy :: "string option \<Rightarrow> bool" where
  "truthy s = (case s of None \<Rightarrow> False | Some x \<Rightarrow> x \<noteq> [])"

definition prepare_by_udid :: "device_manager \<Rightarrow> session_config \<Rightarrow> device_info \<Rightarrow> error + device_info" where
  "prepare_by_udid dm config device =
     (if \<not> is_device_available dm (udid device) then
        (if dev_type device = SIMULATOR \<and> cfg_autoboot config then
           (case boot_device dm (udid device) of Some e \<Rightarrow> Inl e | None \<Rightarrow> Inr device)
         else if dev_type device = REAL_DEVICE \<and> cfg_wait_for_connection config then
           (if \<not> wait_for_device dm (udid device) 30 then Inl DeviceNotAvailableError
            else Inr device)
         else Inl DeviceNotAvailableError)
      else Inr device)"

definition prepare_first :: "device_manager \<Rightarrow> session_config \<Rightarrow> device_info \<Rightarrow> error + device_info" where
  "prepare_first dm config device =
     (if \<not> is_device_available dm (udid device) then
        (if dev_type device = SIMULATOR \<and> cfg_autoboot config then
           (case boot_device dm (udid device) of Some e \<Rightarrow> Inl e | None \<Rightarrow> Inr device)
         else Inl DeviceNotAvailableError)
      else Inr device)"

definition find_or_prepare_device :: "device_manager \<Rightarrow> session_config \<Rightarrow> error + device_info" where
  "find_or_prepare_device dm config =
     (if truthy (cfg_device_udid config) then
        (case get_device dm (the (cfg_device_udid config)) of
           None \<Rightarrow> Inl DeviceNotFoundError
         | Some device \<Rightarrow> prepare_by_udid dm config device)
      else
        (let all_devices = discover_all_devices dm;
             c1 = (if truthy (cfg_device_name config)
                   then filter (\<lambda>d. name d = the (cfg_device_name config)) all_devices
                   else all_devices);
             c2 = (case cfg_device_type config of
                     Some t \<Rightarrow> filter (\<lambda>d. dev_type d = t) c1
                   | None \<Rightarrow> c1);
             candidates = (if truthy (cfg_platform_version config)
                   then filter (\<lambda>d. str_contains (the (cfg_platform_version config)) (os_version d)) c2
                   else c2);
             available = filter (\<lambda>d. state d = BOOTED \<or> state d = CONNECTED) candidates
         in case candidates of
              [] \<Rightarrow> Inl DeviceNotFoundError
            | first # _ \<Rightarrow>
                if cfg_prefer_available config \<and> available \<noteq> [] then Inr (hd available)
                else prepare_first dm config first))"

subsection \<open>Saving and creating\<close>

text \<open>The dictionary \<open>_save_session\<close> writes. \<open>.value\<close> on a device type that is
  not an enum member raises AttributeError before the guarded write.\<close>

definition session_data :: "session_info \<Rightarrow> error + json_record" where
  "session_data info =
     (case device_type info of
        RawValue \<Rightarrow> Inl AttributeError
      | Member t \<Rightarrow>
          Inr \<lparr>f_session_id = Some (session_id info),
               f_device_udid = Some (device_udid info),
               f_device_type = Some (TypeStr (device_type_value t)),
               f_created_at = Some (IsoTime (created_at info))\<rparr>)"

text \<open>\<open>write_ok\<close> tells whether opening and writing the file succeeds; the exception
  of a failed write is caught and not raised again.\<close>

definition save_session ::
  "manager \<Rightarrow> filesystem \<Rightarrow> bool \<Rightarrow> session_info \<Rightarrow> error option \<times> filesystem" where
  "save_session m fs write_ok info =
     (case session_data info of
        Inl e \<Rightarrow> (Some e, fs)
      | Inr data \<Rightarrow>
          if write_ok then (None, write_file fs (session_dir m) (session_id info) (Json data))
          else (None, fs))"

text \<open>What one call of \<open>create_session\<close> reads from its environment: the two clock
  readings (of the reap pass and of \<open>created_at\<close>), \<open>int(time.time())\<close>, the random
  bits, and whether the write of the session file succeeds.\<close>

record create_env =
  clock_reap :: int
  clock_created :: int
  unix_time :: nat
  randbits :: "128 word"
  write_ok :: bool

definition at_capacity :: "manager \<Rightarrow> bool" where
  "at_capacity m = (int (length (sessions m)) \<ge> max_sessions m)"

definition store_new_session ::
  "manager \<Rightarrow> filesystem \<Rightarrow> create_env \<Rightarrow> session_config \<Rightarrow> device_info
   \<Rightarrow> (error + string) \<times> manager \<times> filesystem" where
  "store_new_session m fs env config device =
     (let sid = generate_session_id (cfg_session_name config) (unix_time env) (randbits env);
          info = \<lparr>session_id = sid, device_udid = udid device,
                  device_type = Member (dev_type device), created_at = clock_created env\<rparr>;
          m' = m\<lparr>sessions := AList.update sid info (sessions m)\<rparr>
      in case save_session m' fs (write_ok env) info of
           (Some e, fs') \<Rightarrow> (Inl e, m', fs')
         | (None, fs') \<Rightarrow> (Inr sid, m', fs'))"

definition create_session ::
  "manager \<Rightarrow> filesystem \<Rightarrow> device_manager \<Rightarrow> create_env \<Rightarrow> session_config option
   \<Rightarrow> (error + string) \<times> manager \<times> filesystem" where
  "create_session m fs dm env config_opt =
     (let (m1, fs1) =
            (if at_capacity m
             then snd (cleanup_inactive_sessions m fs (clock_reap env) 1)
             else (m, fs))
      in if at_capacity m \<and> at_capacity m1 then (Inl SessionError, m1, fs1)
         else
           (let config = (case config_opt of None \<Rightarrow> SessionConfig | Some c \<Rightarrow> c)
            in case find_or_prepare_device dm config of
                 Inl e \<Rightarrow> (Inl e, m1, fs1)
               | Inr device \<Rightarrow> store_new_session m1 fs1 env config device))"

subsection \<open>Start-up: cleaning, loading, enforcing the limit\<close>

text \<open>\<open>_cleanup_old_sessions_on_startup\<close> unlinks a file when it is older than the
  cutoff and when reading it raises any exception: invalid JSON, no \<open>created_at\<close>
  key, a \<open>created_at\<close> that does not parse or does not compare.\<close>

definition startup_removes :: "int \<Rightarrow> file_content \<Rightarrow> bool" where
  "startup_removes cutoff f =
     (case f of
        NotJson \<Rightarrow> True
      | Json data \<Rightarrow>
          (case f_created_at data of
             None \<Rightarrow> True
           | Some (IsoTime t) \<Rightarrow> t < cutoff
           | Some BadTime \<Rightarrow> True
           | Some TypeErrTime \<Rightarrow> True))"

fun startup_loop ::
  "string \<Rightarrow> int \<Rightarrow> (string \<times> file_content) list \<Rightarrow> filesystem \<Rightarrow> filesystem" where
  "startup_loop dir cutoff [] fs = fs"
| "startup_loop dir cutoff ((stem, f) # rest) fs =
     startup_loop dir cutoff rest
       (if startup_removes cutoff f then unlink fs dir stem else fs)"

definition cleanup_old_sessions_on_startup :: "manager \<Rightarrow> filesystem \<Rightarrow> int \<Rightarrow> filesystem" where
  "cleanup_old_sessions_on_startup m fs now =
     startup_loop (session_dir m) (now - hours (auto_cleanup_hours m))
       (json_files fs (session_dir m)) fs"

text \<open>\<open>_backup_corrupted_session\<close> renames the file into the \<open>corrupted\<close>
  subdirectory; when the rename raises (no such file), nothing changes.\<close>

definition backup_corrupted_session ::
  "string \<Rightarrow> filesystem \<Rightarrow> string \<Rightarrow> nat \<Rightarrow> filesystem" where
  "backup_corrupted_session dir fs stem time_now =
     (case map_of (json_files fs dir) stem of
        None \<Rightarrow> fs
      | Some content \<Rightarrow>
          fs\<lparr>json_files := (json_files fs)(dir := AList.delete stem (json_files fs dir)),
             corrupted_files := (corrupted_files fs)
               (dir := AList.update (stem @ ''.json.'' @ show_nat time_now @ ''.bak'') content
                         (corrupted_files fs dir))\<rparr>)"

text \<open>What the body of the loop of \<open>_load_sessions\<close> decides for one file: the
  session it admits, the unlinking of the file, its move to the backup directory, or
  nothing (an exception that only the outer handler catches).\<close>

datatype load_outcome = Admit session_info | Remove | Backup | Skip

definition load_file :: "int \<Rightarrow> file_content \<Rightarrow> load_outcome" where
  "load_file cutoff f =
     (case f of
        NotJson \<Rightarrow> Backup
      | Json data \<Rightarrow>
          (case (f_session_id data, f_device_udid data, f_device_type data, f_created_at data) of
             (Some sid, Some dev, Some ty, Some ca) \<Rightarrow>
               (case ca of
                  TypeErrTime \<Rightarrow> Skip
                | BadTime \<Rightarrow> Remove
                | IsoTime t \<Rightarrow>
                    if t < cutoff then Remove
                    else
                      (case ty of
                         TypeStr s \<Rightarrow>
                           (case DeviceType s of
                              None \<Rightarrow> Remove
                            | Some d \<Rightarrow>
                                Admit \<lparr>session_id = sid, device_udid = dev,
                                       device_type = Member d, created_at = t\<rparr>)
                       | TypeNonStr \<Rightarrow>
                           Admit \<lparr>session_id = sid, device_udid = dev,
                                  device_type = RawValue, created_at = t\<rparr>))
           | _ \<Rightarrow> Remove))"

text \<open>The loop of \<open>_load_sessions\<close> with its \<open>break\<close>; the state is the dictionary,
  the file system and \<open>loaded_count\<close>. \<open>failed_count\<close> is only printed.\<close>

fun load_loop ::
  "string \<Rightarrow> int \<Rightarrow> int \<Rightarrow> nat \<Rightarrow> (string \<times> file_content) list
   \<Rightarrow> (string \<times> session_info) list \<times> filesystem \<times> int
   \<Rightarrow> (string \<times> session_info) list \<times> filesystem \<times> int" where
  "load_loop dir maxs cutoff time_now [] st = st"
| "load_loop dir maxs cutoff time_now ((stem, f) # rest) (ss, fs, loaded_count) =
     (case load_file cutoff f of
        Backup \<Rightarrow>
          load_loop dir maxs cutoff time_now rest
            (ss, backup_corrupted_session dir fs stem time_now, loaded_count)
      | Remove \<Rightarrow>
          load_loop dir maxs cutoff time_now rest (ss, unlink fs dir stem, loaded_count)
      | Skip \<Rightarrow> load_loop dir maxs cutoff time_now rest (ss, fs, loaded_count)
      | Admit info \<Rightarrow>
          (let ss' = AList.update (session_id info) info ss
           in if loaded_count + 1 \<ge> maxs then (ss', fs, loaded_count + 1)
              else load_loop dir maxs cutoff time_now rest (ss', fs, loaded_count + 1)))"

definition load_sessions ::
  "manager \<Rightarrow> filesystem \<Rightarrow> int \<Rightarrow> nat \<Rightarrow> manager \<times> filesystem" where
  "load_sessions m fs now time_now =
     (case load_loop (session_dir m) (max_sessions m) (now - hours (auto_cleanup_hours m))
             time_now (json_files fs (session_dir m)) (sessions m, fs, 0) of
        (ss, fs', _) \<Rightarrow> (m\<lparr>sessions := ss\<rparr>, fs'))"

fun enforce_loop :: "string list \<Rightarrow> manager \<times> filesystem \<Rightarrow> manager \<times> filesystem" where
  "enforce_loop [] st = st"
| "enforce_loop (sid # rest) (m, fs) =
     (case terminate_session m fs sid of
        (Inr _, m', fs') \<Rightarrow> enforce_loop rest (m', fs')
      | (Inl _, m', fs') \<Rightarrow>
          (let m'' = (if has_session m' sid
                      then m'\<lparr>sessions := AList.delete sid (sessions m')\<rparr> else m')
           in enforce_loop rest (m'', delete_session_file m'' fs' sid)))"

definition enforce_session_limit :: "manager \<Rightarrow> filesystem \<Rightarrow> manager \<times> filesystem" where
  "enforce_session_limit m fs =
     (if int (length (sessions m)) > max_sessions m then
        (let sorted_sessions = sort_key (\<lambda>x. created_at (snd x)) (sessions m);
             to_remove = nat (int (length (sessions m)) - max_sessions m)
         in enforce_loop (map fst (take to_remove sorted_sessions)) (m, fs))
      else (m, fs))"

text \<open>What the constructor reads from its environment: \<open>datetime.now()\<close> in the
  start-up cleaning and in the loading, and \<open>int(time.time())\<close> for backup names.\<close>

record init_env =
  clock_cleanup :: int
  clock_load :: int
  time_backup :: nat

text \<open>\<open>__init__\<close>, with its defaults when an argument is None.\<close>

definition init ::
  "string option \<Rightarrow> int option \<Rightarrow> int option \<Rightarrow> filesystem \<Rightarrow> init_env
   \<Rightarrow> manager \<times> filesystem" where
  "init dir_opt max_opt hours_opt fs env =
     (let m0 = \<lparr>sessions = [],
                session_dir = (case dir_opt of None \<Rightarrow> default_session_dir | Some d \<Rightarrow> d),
                max_sessions = (case max_opt of None \<Rightarrow> 10 | Some n \<Rightarrow> n),
                auto_cleanup_hours = (case hours_opt of None \<Rightarrow> 6 | Some h \<Rightarrow> h)\<rparr>;
          fs1 = cleanup_old_sessions_on_startup m0 fs (clock_cleanup env);
          (m2, fs2) = load_sessions m0 fs1 (clock_load env) (time_backup env)
      in enforce_session_limit m2 fs2)"

section \<open>The resolver (core/utilities_manager.py)\<close>

definition looks_like_session_id :: "string \<Rightarrow> bool" where
  "looks_like_session_id target =
     (CHR ''_'' \<in> set target \<and> length target > 10 \<and>
      (prefix ''session_'' target \<or> prefix ''automation_'' target \<or> prefix ''mcp_'' target
       \<or> count_list target CHR ''_'' \<ge> 2))"

text \<open>Session managers are objects shared by reference: the heap holds them and a
  utilities manager holds the address of the one it was configured with, if any.\<close>

record world =
  heap :: "manager list"
  files :: filesystem

record utilities_manager =
  session_manager :: "nat option"

definition UnifiedUtilitiesManager :: utilities_manager where
  "UnifiedUtilitiesManager = \<lparr>session_manager = None\<rparr>"

definition set_session_manager :: "utilities_manager \<Rightarrow> nat \<Rightarrow> utilities_manager" where
  "set_session_manager um a = um\<lparr>session_manager := Some a\<rparr>"

text \<open>\<open>_get_device_udid_from_session\<close>. Strategy 1 asks the configured manager.
  Strategy 2 imports \<open>get_session_manager_for_session\<close> from mcp/tools.py, which
  does not define it: the ImportError is caught and the strategy does nothing.
  Strategy 3 constructs a \<open>UnifiedSessionManager()\<close> with the default arguments, which
  cleans and loads the default directory, and keeps it when it holds the session.\<close>

definition get_device_udid_from_session ::
  "utilities_manager \<Rightarrow> world \<Rightarrow> init_env \<Rightarrow> string
   \<Rightarrow> (error + string) \<times> utilities_manager \<times> world" where
  "get_device_udid_from_session um w env sid =
     (case (case session_manager um of
              None \<Rightarrow> None
            | Some a \<Rightarrow>
                (case get_device_udid (heap w ! a) sid of
                   Inr device \<Rightarrow> Some device | Inl _ \<Rightarrow> None)) of
        Some device \<Rightarrow> (Inr device, um, w)
      | None \<Rightarrow>
          (let (fallback_manager, fs') = init None None None (files w) env;
               w' = w\<lparr>files := fs'\<rparr>
           in if has_session fallback_manager sid then
                (case get_device_udid fallback_manager sid of
                   Inr device \<Rightarrow>
                     (Inr device,
                      um\<lparr>session_manager := Some (length (heap w))\<rparr>,
                      w'\<lparr>heap := heap w @ [fallback_manager]\<rparr>)
                 | Inl _ \<Rightarrow> (Inl SessionError, um, w'))
              else (Inl SessionError, um, w')))"

text \<open>The target of an operation: a string, a dictionary (of which the keys
  \<open>udid\<close> and \<open>device_udid\<close> are read), or a value of another type.\<close>

datatype target = TargetStr string | TargetDict "string option" "string option" | TargetOther

definition resolve_target ::
  "utilities_manager \<Rightarrow> world \<Rightarrow> init_env \<Rightarrow> target
   \<Rightarrow> (error + string) \<times> utilities_manager \<times> world" where
  "resolve_target um w env tgt =
     (case tgt of
        TargetStr s \<Rightarrow>
          if looks_like_session_id s then get_device_udid_from_session um w env s
          else (Inr s, um, w)
      | TargetDict u d \<Rightarrow>
          (let v = (case u of Some x \<Rightarrow> x
                    | None \<Rightarrow> (case d of Some y \<Rightarrow> y | None \<Rightarrow> []))
           in if v = [] then (Inl ValueError, um, w) else (Inr v, um, w))
      | TargetOther \<Rightarrow> (Inl ValueError, um, w))"

text \<open>A call of \<open>create_session\<close> on the manager object at an address: the object is
  updated in place.\<close>

definition create_session_at ::
  "nat \<Rightarrow> world \<Rightarrow> device_manager \<Rightarrow> create_env \<Rightarrow> session_config option
   \<Rightarrow> (error + string) \<times> world" where
  "create_session_at a w dm env config_opt =
     (case create_session (heap w ! a) (files w) dm env config_opt of
        (r, m', fs') \<Rightarrow> (r, \<lparr>heap = (heap w)[a := m'], files = fs'\<rparr>))"


section \<open>Example states\<close>

definition empty_fs :: filesystem where
  "empty_fs = \<lparr>json_files = (\<lambda>_. []), corrupted_files = (\<lambda>_. [])\<rparr>"

definition iphone :: device_info where
  "iphone = \<lparr>udid = ''5EA6C7B2-1234-4F5A-9ABC-0123456789AB'', name = ''iPhone 15'',
     state = BOOTED, dev_type = SIMULATOR, os_version = ''iOS 17.0'',
     model = ''iPhone 15'', connection_type = ''simulator''\<rparr>"

definition ipad :: device_info where
  "ipad = \<lparr>udid = ''0B7D9F31-7777-4E2C-8D10-FEDCBA987654'', name = ''iPad Air'',
     state = BOOTED, dev_type = SIMULATOR, os_version = ''iOS 17.0'',
     model = ''iPad Air'', connection_type = ''simulator''\<rparr>"

text \<open>A device manager that knows one booted device.\<close>

definition one_device :: "device_info \<Rightarrow> device_manager" where
  "one_device d =
     \<lparr>get_device = (\<lambda>u. if u = udid d then Some d else None),
      is_device_available = (\<lambda>u. u = udid d),
      boot_device = (\<lambda>_. None),
      wait_for_device = (\<lambda>_ _. True),
      discover_all_devices = [d]\<rparr>"

text \<open>An environment of \<open>create_session\<close>: the clock at \<open>t\<close> seconds.\<close>

definition env_at :: "nat \<Rightarrow> bool \<Rightarrow> create_env" where
  "env_at t ok =
     \<lparr>clock_reap = int t * 1000000, clock_created = int t * 1000000, unix_time = t,
      randbits = 0x0123456789abcdef0123456789abcdef, write_ok = ok\<rparr>"

definition init_at :: "nat \<Rightarrow> init_env" where
  "init_at t = \<lparr>clock_cleanup = int t * 1000000, clock_load = int t * 1000000, time_backup = t\<rparr>"

definition store_with :: "string \<Rightarrow> int \<Rightarrow> (string \<times> session_info) list \<Rightarrow> manager" where
  "store_with dir n ss =
     \<lparr>sessions = ss, session_dir = dir, max_sessions = n, auto_cleanup_hours = 6\<rparr>"

definition session_of :: "string \<Rightarrow> device_info \<Rightarrow> nat \<Rightarrow> session_info" where
  "session_of sid d t =
     \<lparr>session_id = sid, device_udid = udid d, device_type = Member (dev_type d),
      created_at = int t * 1000000\<rparr>"

definition record_of :: "string \<Rightarrow> device_info \<Rightarrow> nat \<Rightarrow> file_content" where
  "record_of sid d t =
     Json \<lparr>f_session_id = Some sid, f_device_udid = Some (udid d),
           f_device_type = Some (TypeStr (device_type_value (dev_type d))),
           f_created_at = Some (IsoTime (int t * 1000000))\<rparr>"

definition dir_with :: "string \<Rightarrow> (string \<times> file_content) list \<Rightarrow> filesystem" where
  "dir_with dir entries = \<lparr>json_files = (\<lambda>d. if d = dir then entries else []), corrupted_files = (\<lambda>_. [])\<rparr>"



text \<open>A store that already holds the id the next call will generate.\<close>

definition taken_store :: manager where
  "taken_store = store_with ''/tmp/s'' 10
     [(''session_1700000000_01234567'', session_of ''session_1700000000_01234567'' ipad 1700000000)]"





text \<open>One session manager, on a directory of its own, and no files.\<close>

definition custom_world :: world where
  "custom_world = \<lparr>heap = [store_with ''/tmp/s'' 10 []], files = empty_fs\<rparr>"

text \<open>A session manager on a directory of its own with no sessions, and a record in
  the default directory.\<close>

definition fallback_world :: world where
  "fallback_world =
     \<lparr>heap = [store_with ''/tmp/s'' 10 []],
      files = dir_with default_session_dir
        [(''session_1700000000_01234567'',
          record_of ''session_1700000000_01234567'' ipad 1700000000)]\<rparr>"

text \<open>One session manager on the default directory, and no files.\<close>

definition default_world :: world where
  "default_world = \<lparr>heap = [store_with default_session_dir 10 []], files = empty_fs\<rparr>"

text \<open>A session name under which no session file can be written: the path of the file
  would lie in a directory that does not exist.\<close>

definition slash_config :: session_config where
  "slash_config = SessionConfig\<lparr>cfg_session_name := Some ''ui/tests''\<rparr>"

section \<open>Auxiliary facts\<close>

lemma uid_example:
  "take 8 (generate_uuid4 0x0123456789abcdef0123456789abcdef) = ''01234567''"
  by (simp add: generate_uuid4_def hex32_def hex_digit_def Let_def upt_rec)

lemma sid_example:
  "generate_session_id None 1700000000 0x0123456789abcdef0123456789abcdef
     = ''session_1700000000_01234567''"
  by (simp add: generate_session_id_def uid_example show_nat.simps digit_char_def)

lemma named_sid_example:
  "generate_session_id (Some ''ui/tests'') 1700000000 0x0123456789abcdef0123456789abcdef
     = ''ui/tests_1700000000_01234567''"
  by (simp add: generate_session_id_def uid_example show_nat.simps digit_char_def)


lemma length_update_same: "k \<in> fst ` set al \<Longrightarrow> length (AList.update k v al) = length al"
  by (induction al) auto


lemma session_data_Member:
  "session_data \<lparr>session_id = sid, device_udid = u, device_type = Member t, created_at = c\<rparr>
     = Inr \<lparr>f_session_id = Some sid, f_device_udid = Some u,
            f_device_type = Some (TypeStr (device_type_value t)), f_created_at = Some (IsoTime c)\<rparr>"
  by (simp add: session_data_def)

lemma store_new_session_eq:
  "store_new_session m fs env config device =
     (Inr (generate_session_id (cfg_session_name config) (unix_time env) (randbits env)),
      m\<lparr>sessions := AList.update
            (generate_session_id (cfg_session_name config) (unix_time env) (randbits env))
            \<lparr>session_id = generate_session_id (cfg_session_name config) (unix_time env) (randbits env),
             device_udid = udid device, device_type = Member (dev_type device),
             created_at = clock_created env\<rparr> (sessions m)\<rparr>,
      if write_ok env then
        write_file fs (session_dir m)
          (generate_session_id (cfg_session_name config) (unix_time env) (randbits env))
          (Json \<lparr>f_session_id = Some (generate_session_id (cfg_session_name config) (unix_time env) (randbits env)),
                 f_device_udid = Some (udid device),
                 f_device_type = Some (TypeStr (device_type_value (dev_type device))),
                 f_created_at = Some (IsoTime (clock_created env))\<rparr>)
      else fs)"
  by (simp add: store_new_session_def Let_def save_session_def session_data_Member)

lemma create_session_under_capacity:
  "\<not> at_capacity m \<Longrightarrow>
   find_or_prepare_device dm (case config_opt of None \<Rightarrow> SessionConfig | Some c \<Rightarrow> c) = Inr device \<Longrightarrow>
   create_session m fs dm env config_opt =
     store_new_session m fs env (case config_opt of None \<Rightarrow> SessionConfig | Some c \<Rightarrow> c) device"
  by (simp add: create_session_def Let_def)

lemma find_one_device: "find_or_prepare_device (one_device d) SessionConfig = Inr d"
  by (simp add: find_or_prepare_device_def one_device_def SessionConfig_def truthy_def Let_def
      prepare_first_def)
































lemmas eval_defs =
  init_def cleanup_old_sessions_on_startup_def startup_removes_def load_sessions_def
  load_file_def enforce_session_limit_def unlink_def DeviceType_def
  dir_with_def record_of_def init_at_def hours_def default_session_dir_def
  iphone_def ipad_def list_sessions_def file_exists_def backup_corrupted_session_def Let_def



lemma created_example:
  "create_session (store_with ''/tmp/s'' 10 []) empty_fs (one_device iphone)
      (env_at 1700000000 True) None
   = (Inr ''session_1700000000_01234567'',
      store_with ''/tmp/s'' 10
        [(''session_1700000000_01234567'',
          session_of ''session_1700000000_01234567'' iphone 1700000000)],
      dir_with ''/tmp/s''
        [(''session_1700000000_01234567'',
          record_of ''session_1700000000_01234567'' iphone 1700000000)])"
proof -
  have nc: "\<not> at_capacity (store_with ''/tmp/s'' 10 [])"
    by (simp add: at_capacity_def store_with_def)
  have c: "create_session (store_with ''/tmp/s'' 10 []) empty_fs (one_device iphone)
      (env_at 1700000000 True) None
      = store_new_session (store_with ''/tmp/s'' 10 []) empty_fs (env_at 1700000000 True)
          SessionConfig iphone"
    using create_session_under_capacity [OF nc, of "one_device iphone" None iphone]
    by (simp add: find_one_device)
  have g: "generate_session_id (cfg_session_name SessionConfig)
             (unix_time (env_at 1700000000 True)) (randbits (env_at 1700000000 True))
           = ''session_1700000000_01234567''"
    by (simp add: SessionConfig_def env_at_def sid_example)
  show ?thesis
    unfolding c store_new_session_eq g
    by (auto simp: store_with_def session_of_def record_of_def dir_with_def env_at_def
        write_file_def empty_fs_def)
qed

lemma length_unique_id: "length (take 8 (generate_uuid4 rb)) = 8"
  by (simp add: generate_uuid4_def Let_def hex32_def)

lemma show_nat_nonempty: "show_nat n \<noteq> []"
  by (subst show_nat.simps) simp

text \<open>Every id that \<open>_generate_session_id\<close> builds is one that
  \<open>_looks_like_session_id\<close> accepts.\<close>

lemma generated_id_looks_like_session_id:
  "looks_like_session_id (generate_session_id custom_name timestamp rb)"
proof -
  define u where "u = take 8 (generate_uuid4 rb)"
  define t where "t = show_nat timestamp"
  have lu: "length u = 8" unfolding u_def by (rule length_unique_id)
  have lt: "0 < length t" using show_nat_nonempty [of timestamp] by (simp add: t_def)
  have a: "looks_like_session_id (''session_'' @ t @ ''_'' @ u)"
    using lu by (simp add: looks_like_session_id_def)
  have b: "looks_like_session_id (n @ ''_'' @ t @ ''_'' @ u)" if "n \<noteq> []" for n
  proof -
    have "0 < length n" using that by simp
    then show ?thesis using lu lt by (simp add: looks_like_session_id_def)
  qed
  show ?thesis
    using a b
    by (cases custom_name) (auto simp: generate_session_id_def Let_def u_def t_def)
qed

lemma create_session_binds_device:
  assumes c: "create_session m fs dm env config_opt = (Inr sid, m', fs')"
  shows "\<exists>device.
      find_or_prepare_device dm (case config_opt of None \<Rightarrow> SessionConfig | Some c \<Rightarrow> c)
        = Inr device
      \<and> get_device_udid m' sid = Inr (udid device)"
proof -
  let ?cfg = "case config_opt of None \<Rightarrow> SessionConfig | Some c \<Rightarrow> c"
  obtain cl m1 fs1 where r: "cleanup_inactive_sessions m fs (clock_reap env) 1 = (cl, m1, fs1)"
    by (cases "cleanup_inactive_sessions m fs (clock_reap env) 1")
  show ?thesis
  proof (cases "find_or_prepare_device dm ?cfg")
    case (Inl e)
    then show ?thesis using c by (auto simp: create_session_def Let_def r split: if_splits)
  next
    case (Inr device)
    have "get_device_udid m' sid = Inr (udid device)"
      using c Inr
      by (auto simp: create_session_def Let_def r store_new_session_eq get_device_udid_def
          AList.update_conv' split: if_splits)
    then show ?thesis using Inr by blast
  qed
qed

text \<open>A utilities manager configured with the session manager that created a session
  resolves the returned id to the device of that session, and changes nothing.\<close>

lemma configured_resolver_finds_session:
  assumes a: "a < length (heap w)"
    and c: "create_session_at a w dm env config_opt = (Inr sid, w')"
    and s: "session_manager um = Some a"
  shows "\<exists>device.
      find_or_prepare_device dm (case config_opt of None \<Rightarrow> SessionConfig | Some c \<Rightarrow> c)
        = Inr device
      \<and> resolve_target um w' ienv (TargetStr sid) = (Inr (udid device), um, w')"
proof -
  obtain r m' fs' where cs: "create_session (heap w ! a) (files w) dm env config_opt = (r, m', fs')"
    by (cases "create_session (heap w ! a) (files w) dm env config_opt")
  have r: "r = Inr sid" and w': "w' = \<lparr>heap = (heap w)[a := m'], files = fs'\<rparr>"
    using c by (simp_all add: create_session_at_def cs)
  have h: "heap w' ! a = m'" using a by (simp add: w')
  obtain device where d: "find_or_prepare_device dm
        (case config_opt of None \<Rightarrow> SessionConfig | Some c \<Rightarrow> c) = Inr device"
      "get_device_udid m' sid = Inr (udid device)"
    using create_session_binds_device [of "heap w ! a" "files w" dm env config_opt sid m' fs'] cs r
    by auto
  have g: "sid = generate_session_id
      (cfg_session_name (case config_opt of None \<Rightarrow> SessionConfig | Some c \<Rightarrow> c))
      (unix_time env) (randbits env)"
    using cs r by (auto simp: create_session_def Let_def store_new_session_eq
        split: prod.splits sum.splits if_splits)
  have l: "looks_like_session_id sid"
    unfolding g by (rule generated_id_looks_like_session_id)
  have "resolve_target um w' ienv (TargetStr sid) = (Inr (udid device), um, w')"
    using l s h d(2) by (simp add: resolve_target_def get_device_udid_from_session_def)
  then show ?thesis using d(1) by blast
qed

lemma get_device_udid_missing: "\<not> has_session m s \<Longrightarrow> get_device_udid m s = Inl SessionError"
  by (simp add: get_device_udid_def has_session_def map_of_eq_None_iff [THEN iffD2])

lemma get_device_udid_present: "has_session m s \<Longrightarrow> \<exists>u. get_device_udid m s = Inr u"
  by (cases "map_of (sessions m) s")
    (auto simp: get_device_udid_def has_session_def map_of_eq_None_iff)

text \<open>What \<open>_get_device_udid_from_session\<close> does with an id that the configured
  manager, if any, does not hold.\<close>

lemma get_device_udid_from_session_fallback:
  assumes h: "\<forall>a. session_manager um = Some a \<longrightarrow> \<not> has_session (heap w ! a) s"
  shows "(\<not> has_session (fst (init None None None (files w) env)) s \<longrightarrow>
        get_device_udid_from_session um w env s
          = (Inl SessionError, um, w\<lparr>files := snd (init None None None (files w) env)\<rparr>))
     \<and> (has_session (fst (init None None None (files w) env)) s \<longrightarrow>
        get_device_udid_from_session um w env s
          = (get_device_udid (fst (init None None None (files w) env)) s,
             um\<lparr>session_manager := Some (length (heap w))\<rparr>,
             w\<lparr>files := snd (init None None None (files w) env),
               heap := heap w @ [fst (init None None None (files w) env)]\<rparr>))"
proof (intro impI conjI)
  have s1: "(case session_manager um of None \<Rightarrow> None
      | Some a \<Rightarrow> (case get_device_udid (heap w ! a) s of
           Inr device \<Rightarrow> Some device | Inl _ \<Rightarrow> None)) = None"
    using h by (cases "session_manager um") (auto simp: get_device_udid_missing)
  {
    assume n: "\<not> has_session (fst (init None None None (files w) env)) s"
    show "get_device_udid_from_session um w env s
          = (Inl SessionError, um, w\<lparr>files := snd (init None None None (files w) env)\<rparr>)"
      using n by (simp add: get_device_udid_from_session_def s1 case_prod_unfold Let_def)
  }
  {
    assume p: "has_session (fst (init None None None (files w) env)) s"
    obtain u where u: "get_device_udid (fst (init None None None (files w) env)) s = Inr u"
      using get_device_udid_present [OF p] by blast
    show "get_device_udid_from_session um w env s
          = (get_device_udid (fst (init None None None (files w) env)) s,
             um\<lparr>session_manager := Some (length (heap w))\<rparr>,
             w\<lparr>files := snd (init None None None (files w) env),
               heap := heap w @ [fst (init None None None (files w) env)]\<rparr>)"
      using p by (simp add: get_device_udid_from_session_def s1 case_prod_unfold Let_def u)
  }
qed

lemma init_fallback_world:
  "init None None None (files fallback_world) (init_at 1700000100)
   = (store_with default_session_dir 10
        [(''session_1700000000_01234567'',
          session_of ''session_1700000000_01234567'' ipad 1700000000)],
      files fallback_world)"
  by (simp add: fallback_world_def eval_defs store_with_def session_of_def)

lemma init_custom_world:
  "init None None None (files custom_world) (init_at 1700000100)
   = (store_with default_session_dir 10 [], files custom_world)"
  by (simp add: custom_world_def empty_fs_def eval_defs store_with_def)

lemma created_unsaved_example:
  "create_session (store_with default_session_dir 10 []) empty_fs (one_device iphone)
      (env_at 1700000000 False) (Some slash_config)
   = (Inr ''ui/tests_1700000000_01234567'',
      store_with default_session_dir 10
        [(''ui/tests_1700000000_01234567'',
          session_of ''ui/tests_1700000000_01234567'' iphone 1700000000)],
      empty_fs)"
proof -
  have nc: "\<not> at_capacity (store_with default_session_dir 10 [])"
    by (simp add: at_capacity_def store_with_def)
  have f: "find_or_prepare_device (one_device iphone)
      (case Some slash_config of None \<Rightarrow> SessionConfig | Some c \<Rightarrow> c) = Inr iphone"
    by (simp add: find_or_prepare_device_def one_device_def SessionConfig_def slash_config_def
        truthy_def Let_def prepare_first_def)
  have c: "create_session (store_with default_session_dir 10 []) empty_fs (one_device iphone)
      (env_at 1700000000 False) (Some slash_config)
      = store_new_session (store_with default_session_dir 10 []) empty_fs
          (env_at 1700000000 False) slash_config iphone"
    using create_session_under_capacity [OF nc f] by simp
  have g: "generate_session_id (cfg_session_name slash_config)
             (unix_time (env_at 1700000000 False)) (randbits (env_at 1700000000 False))
           = ''ui/tests_1700000000_01234567''"
    by (simp add: slash_config_def env_at_def named_sid_example)
  show ?thesis
    unfolding c store_new_session_eq g
    by (simp add: store_with_def session_of_def env_at_def)
qed

section \<open>Claims\<close>

text \<open>C1 at two failing inputs. A session manager on a directory of its own creates a
  session and holds it; a fresh utilities manager, with no session manager configured,
  asked for the returned id right away raises SessionError: the fallback manager it
  constructs reads the default directory only. The same happens with a session manager
  on the default directory when the session file could not be written.\<close>

theorem fresh_resolver_misses_session:
  "fst (create_session_at 0 custom_world (one_device iphone) (env_at 1700000000 True) None)
     = Inr ''session_1700000000_01234567''
   \<and> get_device_udid
        (heap (snd (create_session_at 0 custom_world (one_device iphone)
                      (env_at 1700000000 True) None)) ! 0)
        ''session_1700000000_01234567'' = Inr (udid iphone)
   \<and> fst (resolve_target UnifiedUtilitiesManager
            (snd (create_session_at 0 custom_world (one_device iphone)
                    (env_at 1700000000 True) None))
            (init_at 1700000001) (TargetStr ''session_1700000000_01234567''))
     = Inl SessionError
   \<and> fst (create_session_at 0 default_world (one_device iphone) (env_at 1700000000 False)
            (Some slash_config))
     = Inr ''ui/tests_1700000000_01234567''
   \<and> get_device_udid
        (heap (snd (create_session_at 0 default_world (one_device iphone)
                      (env_at 1700000000 False) (Some slash_config))) ! 0)
        ''ui/tests_1700000000_01234567'' = Inr (udid iphone)
   \<and> fst (resolve_target UnifiedUtilitiesManager
            (snd (create_session_at 0 default_world (one_device iphone)
                    (env_at 1700000000 False) (Some slash_config)))
            (init_at 1700000001) (TargetStr ''ui/tests_1700000000_01234567''))
     = Inl SessionError"
proof -
  have w1: "create_session_at 0 custom_world (one_device iphone) (env_at 1700000000 True) None
      = (Inr ''session_1700000000_01234567'',
         \<lparr>heap = [store_with ''/tmp/s'' 10
              [(''session_1700000000_01234567'',
                session_of ''session_1700000000_01234567'' iphone 1700000000)]],
          files = dir_with ''/tmp/s''
              [(''session_1700000000_01234567'',
                record_of ''session_1700000000_01234567'' iphone 1700000000)]\<rparr>)"
    by (simp add: create_session_at_def custom_world_def created_example)
  have w2: "create_session_at 0 default_world (one_device iphone) (env_at 1700000000 False)
        (Some slash_config)
      = (Inr ''ui/tests_1700000000_01234567'',
         \<lparr>heap = [store_with default_session_dir 10
              [(''ui/tests_1700000000_01234567'',
                session_of ''ui/tests_1700000000_01234567'' iphone 1700000000)]],
          files = empty_fs\<rparr>)"
    by (simp add: create_session_at_def default_world_def created_unsaved_example)
  show ?thesis
    unfolding w1 w2
    by (simp add: resolve_target_def looks_like_session_id_def
        get_device_udid_from_session_def UnifiedUtilitiesManager_def get_device_udid_def
        store_with_def session_of_def has_session_def empty_fs_def eval_defs)
qed

text \<open>C2, as the code has it. A session-shaped string that the configured session
  manager does not hold (or with no manager configured) makes \<open>_resolve_target\<close>
  construct a session manager with the default arguments, which cleans and loads the
  default directory. When that manager does not hold the id either, SessionError is
  raised, the utilities manager is unchanged and the files are as the constructor left
  them. When it holds the id, the device of its session is returned and the utilities
  manager keeps the new manager as its session manager.\<close>

theorem resolve_unknown_session:
  "looks_like_session_id s
   \<and> (\<forall>a. session_manager um = Some a \<longrightarrow> \<not> has_session (heap w ! a) s) \<longrightarrow>
     (\<not> has_session (fst (init None None None (files w) env)) s \<longrightarrow>
        resolve_target um w env (TargetStr s)
          = (Inl SessionError, um, w\<lparr>files := snd (init None None None (files w) env)\<rparr>))
     \<and> (has_session (fst (init None None None (files w) env)) s \<longrightarrow>
        resolve_target um w env (TargetStr s)
          = (get_device_udid (fst (init None None None (files w) env)) s,
             um\<lparr>session_manager := Some (length (heap w))\<rparr>,
             w\<lparr>files := snd (init None None None (files w) env),
               heap := heap w @ [fst (init None None None (files w) env)]\<rparr>))"
proof
  assume h: "looks_like_session_id s
    \<and> (\<forall>a. session_manager um = Some a \<longrightarrow> \<not> has_session (heap w ! a) s)"
  then have r: "resolve_target um w env (TargetStr s) = get_device_udid_from_session um w env s"
    by (simp add: resolve_target_def)
  from h have "\<forall>a. session_manager um = Some a \<longrightarrow> \<not> has_session (heap w ! a) s"
    by simp
  from get_device_udid_from_session_fallback [OF this, of env]
  show "(\<not> has_session (fst (init None None None (files w) env)) s \<longrightarrow>
        resolve_target um w env (TargetStr s)
          = (Inl SessionError, um, w\<lparr>files := snd (init None None None (files w) env)\<rparr>))
     \<and> (has_session (fst (init None None None (files w) env)) s \<longrightarrow>
        resolve_target um w env (TargetStr s)
          = (get_device_udid (fst (init None None None (files w) env)) s,
             um\<lparr>session_manager := Some (length (heap w))\<rparr>,
             w\<lparr>files := snd (init None None None (files w) env),
               heap := heap w @ [fst (init None None None (files w) env)]\<rparr>))"
    unfolding r .
qed

theorem resolve_unknown_session_witness:
  "looks_like_session_id ''session_1700000000_01234567''
   \<and> \<not> has_session (heap custom_world ! 0) ''session_1700000000_01234567''
   \<and> \<not> has_session (fst (init None None None (files custom_world) (init_at 1700000100)))
        ''session_1700000000_01234567''
   \<and> resolve_target (set_session_manager UnifiedUtilitiesManager 0) custom_world
        (init_at 1700000100) (TargetStr ''session_1700000000_01234567'')
       = (Inl SessionError, set_session_manager UnifiedUtilitiesManager 0, custom_world)
   \<and> \<not> has_session (heap fallback_world ! 0) ''session_1700000000_01234567''
   \<and> has_session (fst (init None None None (files fallback_world) (init_at 1700000100)))
        ''session_1700000000_01234567''
   \<and> fst (resolve_target (set_session_manager UnifiedUtilitiesManager 0) fallback_world
        (init_at 1700000100) (TargetStr ''session_1700000000_01234567''))
       = Inr (udid ipad)"
proof -
  have l: "looks_like_session_id ''session_1700000000_01234567''"
    by (simp add: looks_like_session_id_def)
  have n1: "\<forall>a. session_manager (set_session_manager UnifiedUtilitiesManager 0) = Some a \<longrightarrow>
      \<not> has_session (heap custom_world ! a) ''session_1700000000_01234567''"
    by (simp add: set_session_manager_def UnifiedUtilitiesManager_def custom_world_def
        store_with_def has_session_def)
  have n2: "\<forall>a. session_manager (set_session_manager UnifiedUtilitiesManager 0) = Some a \<longrightarrow>
      \<not> has_session (heap fallback_world ! a) ''session_1700000000_01234567''"
    by (simp add: set_session_manager_def UnifiedUtilitiesManager_def fallback_world_def
        store_with_def has_session_def)
  have m1: "\<not> has_session (fst (init None None None (files custom_world) (init_at 1700000100)))
        ''session_1700000000_01234567''"
    by (simp add: init_custom_world store_with_def has_session_def)
  have m2: "has_session (fst (init None None None (files fallback_world) (init_at 1700000100)))
        ''session_1700000000_01234567''"
    by (simp add: init_fallback_world store_with_def has_session_def)
  have f1: "custom_world\<lparr>files := files custom_world\<rparr> = custom_world" by simp
  have g2: "get_device_udid (store_with default_session_dir 10
        [(''session_1700000000_01234567'',
          session_of ''session_1700000000_01234567'' ipad 1700000000)])
        ''session_1700000000_01234567'' = Inr (udid ipad)"
    by (simp add: get_device_udid_def store_with_def session_of_def)
  note t1 = resolve_unknown_session [where s = "''session_1700000000_01234567''"
      and um = "set_session_manager UnifiedUtilitiesManager 0" and w = custom_world
      and env = "init_at 1700000100", rule_format, OF conjI [OF l n1]]
  note t2 = resolve_unknown_session [where s = "''session_1700000000_01234567''"
      and um = "set_session_manager UnifiedUtilitiesManager 0" and w = fallback_world
      and env = "init_at 1700000100", rule_format, OF conjI [OF l n2]]
  have r1: "resolve_target (set_session_manager UnifiedUtilitiesManager 0) custom_world
        (init_at 1700000100) (TargetStr ''session_1700000000_01234567'')
       = (Inl SessionError, set_session_manager UnifiedUtilitiesManager 0, custom_world)"
    using t1 m1 by (simp add: init_custom_world f1)
  have r2: "fst (resolve_target (set_session_manager UnifiedUtilitiesManager 0) fallback_world
        (init_at 1700000100) (TargetStr ''session_1700000000_01234567''))
       = Inr (udid ipad)"
    using t2 m2 by (simp add: init_fallback_world g2)
  have a1: "\<not> has_session (heap custom_world ! 0) ''session_1700000000_01234567''"
    using n1 by (simp add: set_session_manager_def UnifiedUtilitiesManager_def)
  have a2: "\<not> has_session (heap fallback_world ! 0) ''session_1700000000_01234567''"
    using n2 by (simp add: set_session_manager_def UnifiedUtilitiesManager_def)
  from l a1 m1 r1 a2 m2 r2 show ?thesis by simp
qed

text \<open>C2, as stated, fails: the configured session manager has no record of the id, a
  record of it lies in the default directory, and the resolver returns the device of
  that record from a second session manager that it constructs and keeps.\<close>

theorem resolver_falls_back_to_default_store:
  "looks_like_session_id ''session_1700000000_01234567''
   \<and> \<not> has_session (heap fallback_world ! 0) ''session_1700000000_01234567''
   \<and> fst (resolve_target (set_session_manager UnifiedUtilitiesManager 0) fallback_world
            (init_at 1700000100) (TargetStr ''session_1700000000_01234567''))
       = Inr (udid ipad)
   \<and> session_manager (fst (snd (resolve_target (set_session_manager UnifiedUtilitiesManager 0)
            fallback_world (init_at 1700000100) (TargetStr ''session_1700000000_01234567''))))
       = Some 1
   \<and> length (heap (snd (snd (resolve_target (set_session_manager UnifiedUtilitiesManager 0)
            fallback_world (init_at 1700000100) (TargetStr ''session_1700000000_01234567'')))))
       = 2"
proof -
  have l: "looks_like_session_id ''session_1700000000_01234567''"
    by (simp add: looks_like_session_id_def)
  have n: "\<forall>a. session_manager (set_session_manager UnifiedUtilitiesManager 0) = Some a \<longrightarrow>
      \<not> has_session (heap fallback_world ! a) ''session_1700000000_01234567''"
    by (simp add: set_session_manager_def UnifiedUtilitiesManager_def fallback_world_def
        store_with_def has_session_def)
  have a: "\<not> has_session (heap fallback_world ! 0) ''session_1700000000_01234567''"
    using n by (simp add: set_session_manager_def UnifiedUtilitiesManager_def)
  have m: "has_session (fst (init None None None (files fallback_world) (init_at 1700000100)))
        ''session_1700000000_01234567''"
    by (simp add: init_fallback_world store_with_def has_session_def)
  have g: "get_device_udid (store_with default_session_dir 10
        [(''session_1700000000_01234567'',
          session_of ''session_1700000000_01234567'' ipad 1700000000)])
        ''session_1700000000_01234567'' = Inr (udid ipad)"
    by (simp add: get_device_udid_def store_with_def session_of_def)
  have hl: "length (heap fallback_world) = 1" by (simp add: fallback_world_def)
  have e: "resolve_target (set_session_manager UnifiedUtilitiesManager 0) fallback_world
        (init_at 1700000100) (TargetStr ''session_1700000000_01234567'')
      = get_device_udid_from_session (set_session_manager UnifiedUtilitiesManager 0)
          fallback_world (init_at 1700000100) ''session_1700000000_01234567''"
    using l by (simp add: resolve_target_def)
  note t = get_device_udid_from_session_fallback [OF n, of "init_at 1700000100",
      THEN conjunct2, rule_format, OF m]
  have r: "resolve_target (set_session_manager UnifiedUtilitiesManager 0) fallback_world
        (init_at 1700000100) (TargetStr ''session_1700000000_01234567'')
      = (Inr (udid ipad),
         set_session_manager UnifiedUtilitiesManager 0\<lparr>session_manager := Some 1\<rparr>,
         fallback_world\<lparr>files := files fallback_world,
           heap := heap fallback_world
             @ [store_with default_session_dir 10
                 [(''session_1700000000_01234567'',
                   session_of ''session_1700000000_01234567'' ipad 1700000000)]]\<rparr>)"
    using t by (simp add: e init_fallback_world g hl)
  show ?thesis using l a by (simp add: r hl)
qed



text \<open>C4. A string that \<open>_looks_like_session_id\<close> rejects is returned by
  \<open>_resolve_target\<close> as it is; neither the utilities manager nor the session managers
  nor the files change, so no session store is consulted or constructed.\<close>

theorem resolve_raw_device_id:
  "\<not> looks_like_session_id s \<Longrightarrow> resolve_target um w env (TargetStr s) = (Inr s, um, w)"
  by (simp add: resolve_target_def)

theorem resolve_raw_device_id_witness:
  "\<not> looks_like_session_id ''5EA6C7B2-1234-4F5A-9ABC-0123456789AB'' \<and>
   resolve_target UnifiedUtilitiesManager \<lparr>heap = [], files = empty_fs\<rparr> (init_at 1700000000)
     (TargetStr ''5EA6C7B2-1234-4F5A-9ABC-0123456789AB'')
   = (Inr ''5EA6C7B2-1234-4F5A-9ABC-0123456789AB'', UnifiedUtilitiesManager,
      \<lparr>heap = [], files = empty_fs\<rparr>)"
proof -
  have h: "\<not> looks_like_session_id ''5EA6C7B2-1234-4F5A-9ABC-0123456789AB''"
    by (simp add: looks_like_session_id_def)
  show ?thesis using h resolve_raw_device_id [OF h] by simp
qed











text \<open>C9, as the code has it. The id \<open>create_session\<close> returns is the one
  \<open>_generate_session_id\<close> builds from the session name, the time and the random bits.
  Under the limit and with a device found, the dictionary afterwards is the old one with
  the new session stored under that id: no membership test is made, and an id that is
  already a key has its session replaced.\<close>

theorem create_session_accepts_generated_id:
  "(create_session m fs dm env config_opt = (Inr sid, m', fs') \<longrightarrow>
      sid = generate_session_id
              (cfg_session_name (case config_opt of None \<Rightarrow> SessionConfig | Some c \<Rightarrow> c))
              (unix_time env) (randbits env))
   \<and> (\<not> at_capacity m
        \<and> find_or_prepare_device dm (case config_opt of None \<Rightarrow> SessionConfig | Some c \<Rightarrow> c)
            = Inr device \<longrightarrow>
        fst (create_session m fs dm env config_opt)
          = Inr (generate_session_id
                  (cfg_session_name (case config_opt of None \<Rightarrow> SessionConfig | Some c \<Rightarrow> c))
                  (unix_time env) (randbits env))
        \<and> sessions (fst (snd (create_session m fs dm env config_opt)))
          = AList.update
              (generate_session_id
                  (cfg_session_name (case config_opt of None \<Rightarrow> SessionConfig | Some c \<Rightarrow> c))
                  (unix_time env) (randbits env))
              \<lparr>session_id = generate_session_id
                  (cfg_session_name (case config_opt of None \<Rightarrow> SessionConfig | Some c \<Rightarrow> c))
                  (unix_time env) (randbits env),
               device_udid = udid device, device_type = Member (dev_type device),
               created_at = clock_created env\<rparr>
              (sessions m))"
proof -
  let ?cfg = "case config_opt of None \<Rightarrow> SessionConfig | Some c \<Rightarrow> c"
  have a: "create_session m fs dm env config_opt = (Inr sid, m', fs') \<longrightarrow>
      sid = generate_session_id (cfg_session_name ?cfg) (unix_time env) (randbits env)"
    by (auto simp: create_session_def Let_def store_new_session_eq
        split: prod.splits sum.splits if_splits)
  have b: "\<not> at_capacity m \<and> find_or_prepare_device dm ?cfg = Inr device \<longrightarrow>
        fst (create_session m fs dm env config_opt)
          = Inr (generate_session_id (cfg_session_name ?cfg) (unix_time env) (randbits env))
        \<and> sessions (fst (snd (create_session m fs dm env config_opt)))
          = AList.update
              (generate_session_id (cfg_session_name ?cfg) (unix_time env) (randbits env))
              \<lparr>session_id = generate_session_id (cfg_session_name ?cfg) (unix_time env) (randbits env),
               device_udid = udid device, device_type = Member (dev_type device),
               created_at = clock_created env\<rparr>
              (sessions m)"
    by (simp add: create_session_under_capacity store_new_session_eq)
  from a b show ?thesis by blast
qed

theorem create_session_accepts_generated_id_witness:
  "\<not> at_capacity taken_store
   \<and> find_or_prepare_device (one_device iphone) SessionConfig = Inr iphone
   \<and> fst (create_session taken_store empty_fs (one_device iphone) (env_at 1700000000 True) None)
       = Inr ''session_1700000000_01234567''
   \<and> sessions (fst (snd (create_session taken_store empty_fs (one_device iphone)
                 (env_at 1700000000 True) None)))
       = [(''session_1700000000_01234567'',
           session_of ''session_1700000000_01234567'' iphone 1700000000)]"
proof -
  have h1: "\<not> at_capacity taken_store"
    by (simp add: at_capacity_def taken_store_def store_with_def)
  have h2: "find_or_prepare_device (one_device iphone)
              (case None of None \<Rightarrow> SessionConfig | Some c \<Rightarrow> c) = Inr iphone"
    by (simp add: find_one_device)
  have g: "generate_session_id (cfg_session_name SessionConfig)
             (unix_time (env_at 1700000000 True)) (randbits (env_at 1700000000 True))
           = ''session_1700000000_01234567''"
    by (simp add: SessionConfig_def env_at_def sid_example)
  note t = create_session_accepts_generated_id [of taken_store empty_fs "one_device iphone"
      "env_at 1700000000 True" None "''x''" taken_store empty_fs iphone,
      THEN conjunct2, rule_format, OF conjI [OF h1 h2]]
  have u: "AList.update ''session_1700000000_01234567''
             \<lparr>session_id = ''session_1700000000_01234567'', device_udid = udid iphone,
              device_type = Member (dev_type iphone),
              created_at = clock_created (env_at 1700000000 True)\<rparr> (sessions taken_store)
           = [(''session_1700000000_01234567'',
               session_of ''session_1700000000_01234567'' iphone 1700000000)]"
    by (simp add: taken_store_def store_with_def session_of_def env_at_def)
  show ?thesis using h1 h2 t by (simp add: g u)
qed

text \<open>C9, as stated, fails: the store holds a session under the id that the call
  generates; the call accepts the id and the session bound to the iPad is replaced by one
  bound to the iPhone.\<close>

theorem create_session_id_collision:
  "has_session taken_store ''session_1700000000_01234567''
   \<and> get_device_udid taken_store ''session_1700000000_01234567'' = Inr (udid ipad)
   \<and> fst (create_session taken_store empty_fs (one_device iphone) (env_at 1700000000 True) None)
       = Inr ''session_1700000000_01234567''
   \<and> get_device_udid
        (fst (snd (create_session taken_store empty_fs (one_device iphone)
                    (env_at 1700000000 True) None)))
        ''session_1700000000_01234567'' = Inr (udid iphone)
   \<and> length (sessions (fst (snd (create_session taken_store empty_fs (one_device iphone)
                    (env_at 1700000000 True) None)))) = 1"
proof -
  have nc: "\<not> at_capacity taken_store"
    by (simp add: at_capacity_def taken_store_def store_with_def)
  have c: "create_session taken_store empty_fs (one_device iphone) (env_at 1700000000 True) None
      = store_new_session taken_store empty_fs (env_at 1700000000 True) SessionConfig iphone"
    using create_session_under_capacity [OF nc, of "one_device iphone" None iphone]
    by (simp add: find_one_device)
  have g: "generate_session_id (cfg_session_name SessionConfig)
             (unix_time (env_at 1700000000 True)) (randbits (env_at 1700000000 True))
           = ''session_1700000000_01234567''"
    by (simp add: SessionConfig_def env_at_def sid_example)
  show ?thesis
    unfolding c store_new_session_eq g
    by (simp add: taken_store_def store_with_def has_session_def get_device_udid_def
        session_of_def)
qed




end
